theory Spec2Isabelle
  imports Main
begin

section \<open>The output tree\<close>

text \<open>
  \<open>src/components/step-indicator.tsx\<close> returns a tree of elements. Five element types
  occur in it: the host elements \<open>div\<close>, \<open>ol\<close>, \<open>li\<close>, \<open>span\<close> and the imported icon
  component \<open>CheckIcon\<close>. An element carries the two attributes the source sets, \<open>key\<close>
  (only on \<open>li\<close>) and \<open>className\<close>, and its children; a child is an element, a string
  (\<open>{step}\<close>) or a number (\<open>{index + 1}\<close>).
\<close>

datatype elem_type = Div | Ol | Li | Span | CheckIcon

datatype node =
    Element elem_type "nat option" string "node list"
  | Str string
  | Num nat

fun elemOf :: "node \<Rightarrow> elem_type option" where
  "elemOf (Element e k c ns) = Some e"
| "elemOf n = None"

fun keyOf :: "node \<Rightarrow> nat option" where
  "keyOf (Element e k c ns) = k"
| "keyOf n = None"

fun classNameOf :: "node \<Rightarrow> string" where
  "classNameOf (Element e k c ns) = c"
| "classNameOf n = []"

fun childrenOf :: "node \<Rightarrow> node list" where
  "childrenOf (Element e k c ns) = ns"
| "childrenOf n = []"

section \<open>The component\<close>

text \<open>
  \<open>Array.prototype.map\<close> with the two-argument callback \<open>(step, index) => ...\<close>: the
  callback is applied to every element together with its zero-based index, and the
  results are collected in the order of the array.
\<close>

definition map_indexed :: "('a \<Rightarrow> nat \<Rightarrow> 'b) \<Rightarrow> 'a list \<Rightarrow> 'b list" where
  "map_indexed f xs = map (\<lambda>(index, x). f x index) (enumerate 0 xs)"

text \<open>
  The arrow function given to \<open>steps.map\<close> (lines 13 to 37), closed over \<open>currentStep\<close>.
  \<open>steps\<close> is an array of strings, here a list; \<open>index\<close> is an array index and
  \<open>currentStep\<close> any integer. \<open>===\<close> on two numbers is numeric equality. The body
  consists of two comparisons, one addition, a string interpolation and element
  construction; none of them can throw, so the result is a plain tree.
\<close>

definition renderStep :: "int \<Rightarrow> string \<Rightarrow> nat \<Rightarrow> node" where
  "renderStep currentStep step index =
     (let isCompleted = int index < currentStep;
          isCurrent = (int index = currentStep)
      in Element Li (Some index) ''flex flex-col items-center''
           [Element Div None
              (''flex h-8 w-8 items-center justify-center rounded-full border-2 '' @
                 (if isCompleted then ''border-primary bg-primary text-primary-foreground''
                  else if isCurrent then ''border-primary bg-background text-primary''
                  else ''border-muted bg-background''))
              [if isCompleted then Element CheckIcon None ''h-4 w-4'' []
               else Element Span None ''text-sm font-medium'' [Num (index + 1)]],
            Element Span None ''mt-2 hidden text-xs sm:block'' [Str step]])"

definition StepIndicator :: "string list \<Rightarrow> int \<Rightarrow> node" where
  "StepIndicator steps currentStep =
     Element Div None ''relative''
       [Element Div None
          ''absolute left-0 top-1/2 h-0.5 w-full -translate-y-1/2 bg-muted'' [],
        Element Ol None ''relative z-10 flex w-full justify-between''
          (map_indexed (renderStep currentStep) steps)]"

section \<open>Reading the output\<close>

text \<open>
  The three states of the specification, and how they are read off a rendered tree: the
  list items are the children of the \<open>ol\<close>, the marker of an item is its first child, and
  the state of a marker is the branch of the class string it carries.
\<close>

datatype step_state = Completed | Current | Pending

definition items :: "node \<Rightarrow> node list" where
  "items t = (case childrenOf t of [line, l] \<Rightarrow> childrenOf l | _ \<Rightarrow> [])"

definition markerOf :: "node \<Rightarrow> node" where
  "markerOf item = (case childrenOf item of m # rest \<Rightarrow> m | [] \<Rightarrow> Str [])"

definition state_of_class :: "string \<Rightarrow> step_state option" where
  "state_of_class c =
     (if c = ''flex h-8 w-8 items-center justify-center rounded-full border-2 border-primary bg-primary text-primary-foreground''
      then Some Completed
      else if c = ''flex h-8 w-8 items-center justify-center rounded-full border-2 border-primary bg-background text-primary''
      then Some Current
      else if c = ''flex h-8 w-8 items-center justify-center rounded-full border-2 border-muted bg-background''
      then Some Pending
      else None)"

definition stateOf :: "node \<Rightarrow> step_state option" where
  "stateOf item = state_of_class (classNameOf (markerOf item))"

text \<open>
  The derived per-step state as the specification words it (section 3): Completed when
  \<open>i < currentStep\<close>, Current when \<open>i = currentStep\<close>, Pending when \<open>i > currentStep\<close>.
\<close>

definition spec_state :: "nat \<Rightarrow> int \<Rightarrow> step_state" where
  "spec_state i currentStep =
     (if int i < currentStep then Completed
      else if int i = currentStep then Current
      else Pending)"

text \<open>The label of an item is its second child; its text is the string that child holds.\<close>

definition labelOf :: "node \<Rightarrow> node" where
  "labelOf item = (case childrenOf item of [m, l] \<Rightarrow> l | _ \<Rightarrow> Str [])"

definition labelText :: "node \<Rightarrow> string option" where
  "labelText item = (case labelOf item of Element Span k c [Str s] \<Rightarrow> Some s | _ \<Rightarrow> None)"

text \<open>
  What a marker shows: whether a \<open>CheckIcon\<close> element occurs in a subtree, and the numbers
  that occur in it as text, from left to right.
\<close>

fun showsCheck :: "node \<Rightarrow> bool" where
  "showsCheck (Element e k c ns) = (e = CheckIcon \<or> list_ex showsCheck ns)"
| "showsCheck n = False"

fun numbersIn :: "node \<Rightarrow> nat list" where
  "numbersIn (Element e k c ns) = concat (map numbersIn ns)"
| "numbersIn (Num n) = [n]"
| "numbersIn (Str s) = []"

text \<open>
  A class attribute is a list of class names separated by single spaces; \<open>hasClass\<close> asks
  whether an element carries a given class name.
\<close>

fun classNames :: "string \<Rightarrow> string list" where
  "classNames [] = [[]]"
| "classNames (ch # cs) =
     (if ch = CHR '' '' then [] # classNames cs
      else (case classNames cs of t # ts \<Rightarrow> (ch # t) # ts | [] \<Rightarrow> [[ch]]))"

definition hasClass :: "string \<Rightarrow> node \<Rightarrow> bool" where
  "hasClass name n = (name \<in> set (classNames (classNameOf n)))"

text \<open>The tree with every string child blanked: what is left when the label texts are ignored.\<close>

fun eraseText :: "node \<Rightarrow> node" where
  "eraseText (Element e k c ns) = Element e k c (map eraseText ns)"
| "eraseText (Str s) = Str []"
| "eraseText (Num n) = Num n"

text \<open>
  The shape of one entry of the list: an \<open>li\<close> with a key, holding a marker \<open>div\<close> with
  one glyph (a check icon or a number) and, after it, a label \<open>span\<close> with one string.
\<close>

definition valid_glyph :: "node \<Rightarrow> bool" where
  "valid_glyph g =
     (case g of
        Element CheckIcon None c [] \<Rightarrow> True
      | Element Span None c [Num n] \<Rightarrow> True
      | _ \<Rightarrow> False)"

definition valid_item :: "node \<Rightarrow> bool" where
  "valid_item item =
     (case item of
        Element Li (Some k) c [Element Div None cm [g], Element Span None cl [Str s]] \<Rightarrow>
          valid_glyph g
      | _ \<Rightarrow> False)"

section \<open>Basic facts\<close>

lemma map_indexed_length: "length (map_indexed f xs) = length xs"
  by (simp add: map_indexed_def)

lemma map_indexed_nth: "i < length xs \<Longrightarrow> map_indexed f xs ! i = f (xs ! i) i"
  by (simp add: map_indexed_def nth_enumerate_eq)

lemma map_indexed_Nil: "map_indexed f [] = []"
  by (simp add: map_indexed_def)

lemma items_StepIndicator:
  "items (StepIndicator steps c) = map_indexed (renderStep c) steps"
  by (simp add: items_def StepIndicator_def)

lemma stateOf_renderStep: "stateOf (renderStep c step i) = Some (spec_state i c)"
  by (simp add: stateOf_def markerOf_def renderStep_def state_of_class_def spec_state_def Let_def)

lemma map_indexed_upt: "map_indexed f xs = map (\<lambda>i. f (xs ! i) i) [0..<length xs]"
  by (rule nth_equalityI) (simp_all add: map_indexed_length map_indexed_nth)

lemma states_StepIndicator:
  "map stateOf (items (StepIndicator steps c)) = map (\<lambda>i. Some (spec_state i c)) [0..<length steps]"
  by (simp add: items_StepIndicator map_indexed_upt stateOf_renderStep)

lemma count_completed:
  "length (filter (\<lambda>i. int i < c) [0..<n]) = nat (max 0 (min c (int n)))"
  by (induction n) auto

lemma count_current:
  "length (filter (\<lambda>i. int i = c) [0..<n]) = (if 0 \<le> c \<and> c < int n then 1 else 0)"
  by (induction n) auto

lemma count_pending:
  "length (filter (\<lambda>i. c < int i) [0..<n]) = n - nat (max 0 (min (c + 1) (int n)))"
  by (induction n) auto



lemma item_nth:
  "i < length steps \<Longrightarrow> items (StepIndicator steps c) ! i = renderStep c (steps ! i) i"
  by (simp add: items_StepIndicator map_indexed_nth)

lemma count_state:
  "length (filter (\<lambda>s. s = Some st) (map stateOf (items (StepIndicator steps c))))
     = length (filter (\<lambda>i. spec_state i c = st) [0..<length steps])"
  by (simp add: states_StepIndicator filter_map comp_def)

lemma spec_state_Completed: "spec_state i c = Completed \<longleftrightarrow> int i < c"
  by (simp add: spec_state_def)

lemma spec_state_Current: "spec_state i c = Current \<longleftrightarrow> int i = c"
  by (simp add: spec_state_def)

lemma spec_state_Pending: "spec_state i c = Pending \<longleftrightarrow> c < int i"
  by (auto simp: spec_state_def)

lemma marker_Completed:
  "int i < c \<Longrightarrow> markerOf (renderStep c step i) =
     Element Div None
       ''flex h-8 w-8 items-center justify-center rounded-full border-2 border-primary bg-primary text-primary-foreground''
       [Element CheckIcon None ''h-4 w-4'' []]"
  by (simp add: markerOf_def renderStep_def)

lemma marker_Current:
  "int i = c \<Longrightarrow> markerOf (renderStep c step i) =
     Element Div None
       ''flex h-8 w-8 items-center justify-center rounded-full border-2 border-primary bg-background text-primary''
       [Element Span None ''text-sm font-medium'' [Num (i + 1)]]"
  by (simp add: markerOf_def renderStep_def)

lemma marker_Pending:
  "c < int i \<Longrightarrow> markerOf (renderStep c step i) =
     Element Div None
       ''flex h-8 w-8 items-center justify-center rounded-full border-2 border-muted bg-background''
       [Element Span None ''text-sm font-medium'' [Num (i + 1)]]"
  by (simp add: markerOf_def renderStep_def)

lemma children_renderStep:
  "childrenOf (renderStep c step i) =
     [markerOf (renderStep c step i), Element Span None ''mt-2 hidden text-xs sm:block'' [Str step]]"
  by (simp add: markerOf_def renderStep_def Let_def)

lemma marker_independent: "markerOf (renderStep c s i) = markerOf (renderStep c s' i)"
  by (simp add: markerOf_def renderStep_def Let_def)

lemma eraseText_renderStep: "eraseText (renderStep c s i) = eraseText (renderStep c s' i)"
  by (simp add: renderStep_def Let_def)

lemma valid_renderStep: "valid_item (renderStep c s i)"
  by (simp add: valid_item_def valid_glyph_def renderStep_def Let_def)

lemma keyOf_renderStep: "keyOf (renderStep c s i) = Some i"
  by (simp add: renderStep_def Let_def)

section \<open>The claims\<close>

text \<open>
  C1. The state of the marker at each index \<open>i\<close> below \<open>steps.length\<close> is Completed when
  \<open>i < currentStep\<close>, Current when \<open>i = currentStep\<close> and Pending when
  \<open>i > currentStep\<close>; it is a function of \<open>i\<close> and \<open>currentStep\<close> alone. With the steps
  A, B, C and \<open>currentStep = 1\<close>, index 0 is Completed, index 1 Current, index 2 Pending.
\<close>

theorem state_by_index:
  "(\<forall>i < length steps.
      (int i < c \<longrightarrow> stateOf (items (StepIndicator steps c) ! i) = Some Completed) \<and>
      (int i = c \<longrightarrow> stateOf (items (StepIndicator steps c) ! i) = Some Current) \<and>
      (c < int i \<longrightarrow> stateOf (items (StepIndicator steps c) ! i) = Some Pending)) \<and>
   map stateOf (items (StepIndicator [''A'', ''B'', ''C''] 1))
     = [Some Completed, Some Current, Some Pending]"
proof -
  have "map stateOf (items (StepIndicator [''A'', ''B'', ''C''] 1))
          = [Some Completed, Some Current, Some Pending]"
    by (simp add: states_StepIndicator spec_state_def upt_rec)
  then show ?thesis
    by (simp add: item_nth stateOf_renderStep spec_state_def)
qed

theorem state_by_index_witness:
  "((0::nat) < length [''A'', ''B'', ''C''] \<and> int 0 < 1 \<and>
      stateOf (items (StepIndicator [''A'', ''B'', ''C''] 1) ! 0) = Some Completed) \<and>
   ((1::nat) < length [''A'', ''B'', ''C''] \<and> int 1 = 1 \<and>
      stateOf (items (StepIndicator [''A'', ''B'', ''C''] 1) ! 1) = Some Current) \<and>
   ((2::nat) < length [''A'', ''B'', ''C''] \<and> 1 < int 2 \<and>
      stateOf (items (StepIndicator [''A'', ''B'', ''C''] 1) ! 2) = Some Pending)"
proof -
  have "\<forall>i < length [''A'', ''B'', ''C''].
      (int i < 1 \<longrightarrow> stateOf (items (StepIndicator [''A'', ''B'', ''C''] 1) ! i) = Some Completed) \<and>
      (int i = 1 \<longrightarrow> stateOf (items (StepIndicator [''A'', ''B'', ''C''] 1) ! i) = Some Current) \<and>
      (1 < int i \<longrightarrow> stateOf (items (StepIndicator [''A'', ''B'', ''C''] 1) ! i) = Some Pending)"
    using state_by_index [of "[''A'', ''B'', ''C'']" 1] by (rule conjunct1)
  from this [rule_format, of 0] this [rule_format, of 1] this [rule_format, of 2]
  show ?thesis by simp
qed

text \<open>
  C2. For a list of \<open>N\<close> steps and \<open>currentStep = c\<close>, exactly \<open>max 0 (min c N)\<close> markers
  are Completed, at most one is Current, and the remaining ones are Pending: the three
  counts add up to \<open>N\<close>.
\<close>

theorem state_counts:
  "length (filter (\<lambda>s. s = Some Completed) (map stateOf (items (StepIndicator steps c))))
     = nat (max 0 (min c (int (length steps)))) \<and>
   length (filter (\<lambda>s. s = Some Current) (map stateOf (items (StepIndicator steps c)))) \<le> 1 \<and>
   length (filter (\<lambda>s. s = Some Completed) (map stateOf (items (StepIndicator steps c))))
     + length (filter (\<lambda>s. s = Some Current) (map stateOf (items (StepIndicator steps c))))
     + length (filter (\<lambda>s. s = Some Pending) (map stateOf (items (StepIndicator steps c))))
     = length steps"
proof -
  let ?n = "length steps"
  have completed:
    "length (filter (\<lambda>s. s = Some Completed) (map stateOf (items (StepIndicator steps c))))
       = nat (max 0 (min c (int ?n)))"
    by (simp only: count_state spec_state_Completed count_completed)
  have current:
    "length (filter (\<lambda>s. s = Some Current) (map stateOf (items (StepIndicator steps c))))
       = (if 0 \<le> c \<and> c < int ?n then 1 else 0)"
    by (simp only: count_state spec_state_Current count_current)
  have pending:
    "length (filter (\<lambda>s. s = Some Pending) (map stateOf (items (StepIndicator steps c))))
       = ?n - nat (max 0 (min (c + 1) (int ?n)))"
    by (simp only: count_state spec_state_Pending count_pending)
  have total:
    "nat (max 0 (min c (int ?n))) + (if 0 \<le> c \<and> c < int ?n then 1 else 0)
       + (?n - nat (max 0 (min (c + 1) (int ?n)))) = ?n"
    by (auto simp: max_def min_def)
  show ?thesis
  proof (intro conjI)
    show "length (filter (\<lambda>s. s = Some Completed) (map stateOf (items (StepIndicator steps c))))
       = nat (max 0 (min c (int ?n)))"
      by (rule completed)
    show "length (filter (\<lambda>s. s = Some Current) (map stateOf (items (StepIndicator steps c)))) \<le> 1"
      unfolding current by simp
    show "length (filter (\<lambda>s. s = Some Completed) (map stateOf (items (StepIndicator steps c))))
     + length (filter (\<lambda>s. s = Some Current) (map stateOf (items (StepIndicator steps c))))
     + length (filter (\<lambda>s. s = Some Pending) (map stateOf (items (StepIndicator steps c))))
     = ?n"
      by (simp only: completed current pending total)
  qed
qed

theorem state_counts_witness:
  "length (filter (\<lambda>s. s = Some Completed) (map stateOf (items (StepIndicator [''A'', ''B'', ''C''] 1)))) = 1 \<and>
   length (filter (\<lambda>s. s = Some Current) (map stateOf (items (StepIndicator [''A'', ''B'', ''C''] 1)))) \<le> 1 \<and>
   length (filter (\<lambda>s. s = Some Completed) (map stateOf (items (StepIndicator [''A'', ''B'', ''C''] 1))))
     + length (filter (\<lambda>s. s = Some Current) (map stateOf (items (StepIndicator [''A'', ''B'', ''C''] 1))))
     + length (filter (\<lambda>s. s = Some Pending) (map stateOf (items (StepIndicator [''A'', ''B'', ''C''] 1))))
     = 3"
  using state_counts [of "[''A'', ''B'', ''C'']" 1] by simp

text \<open>
  C3. An out-of-range \<open>currentStep\<close> saturates: for a non-empty list of steps, a negative
  \<open>currentStep\<close> makes every marker Pending, and a \<open>currentStep\<close> of at least
  \<open>steps.length\<close> makes every marker Completed. With the steps A, B, C, \<open>currentStep = -1\<close>
  gives three Pending markers and \<open>currentStep = 3\<close> three Completed ones.
\<close>

theorem out_of_range_saturates:
  "(steps \<noteq> [] \<longrightarrow>
      (c < 0 \<longrightarrow> map stateOf (items (StepIndicator steps c))
                  = replicate (length steps) (Some Pending)) \<and>
      (int (length steps) \<le> c \<longrightarrow> map stateOf (items (StepIndicator steps c))
                  = replicate (length steps) (Some Completed))) \<and>
   map stateOf (items (StepIndicator [''A'', ''B'', ''C''] (- 1))) = [Some Pending, Some Pending, Some Pending] \<and>
   map stateOf (items (StepIndicator [''A'', ''B'', ''C''] 3))
     = [Some Completed, Some Completed, Some Completed]"
proof -
  have neg: "map stateOf (items (StepIndicator xs d)) = replicate (length xs) (Some Pending)"
    if "d < 0" for xs d
    using that
    by (intro nth_equalityI) (simp_all add: states_StepIndicator spec_state_def)
  have big: "map stateOf (items (StepIndicator xs d)) = replicate (length xs) (Some Completed)"
    if "int (length xs) \<le> d" for xs d
    using that
    by (intro nth_equalityI) (simp_all add: states_StepIndicator spec_state_def)
  have "map stateOf (items (StepIndicator [''A'', ''B'', ''C''] (- 1))) = [Some Pending, Some Pending, Some Pending]"
    using neg [of "- 1" "[''A'', ''B'', ''C'']"] by (simp add: numeral_3_eq_3)
  moreover have "map stateOf (items (StepIndicator [''A'', ''B'', ''C''] 3))
      = [Some Completed, Some Completed, Some Completed]"
    using big [of "[''A'', ''B'', ''C'']" 3] by (simp add: numeral_3_eq_3)
  ultimately show ?thesis
    using neg [of c steps] big [of steps c] by simp
qed

theorem out_of_range_saturates_witness:
  "([''A'', ''B'', ''C''] \<noteq> [] \<and> (- 1 :: int) < 0 \<and>
      map stateOf (items (StepIndicator [''A'', ''B'', ''C''] (- 1))) = replicate (length [''A'', ''B'', ''C'']) (Some Pending)) \<and>
   ([''A'', ''B'', ''C''] \<noteq> [] \<and> int (length [''A'', ''B'', ''C'']) \<le> 3 \<and>
      map stateOf (items (StepIndicator [''A'', ''B'', ''C''] 3)) = replicate (length [''A'', ''B'', ''C'']) (Some Completed))"
  using out_of_range_saturates [of "[''A'', ''B'', ''C'']" "- 1"] out_of_range_saturates [of "[''A'', ''B'', ''C'']" 3] by simp

text \<open>
  C5. The output holds exactly \<open>steps.length\<close> markers, one per entry of \<open>steps\<close> and in
  the order of \<open>steps\<close>: the list has one item per step, every item has the shape above,
  its first child is a marker \<open>div\<close> carrying one of the three states and exactly one
  glyph, the label texts of the items, read from first to last, are the entries of
  \<open>steps\<close>, and the keys are the indices 0, 1, 2, ... . With no steps there is no item
  and no marker, whatever \<open>currentStep\<close> is.
\<close>

theorem one_marker_per_step:
  "length (map markerOf (items (StepIndicator steps c))) = length steps \<and>
   map (\<lambda>item. elemOf (markerOf item)) (items (StepIndicator steps c))
     = replicate (length steps) (Some Div) \<and>
   map (\<lambda>item. length (childrenOf (markerOf item))) (items (StepIndicator steps c))
     = replicate (length steps) 1 \<and>
   None \<notin> set (map stateOf (items (StepIndicator steps c))) \<and>
   list_all valid_item (items (StepIndicator steps c)) \<and>
   map labelText (items (StepIndicator steps c)) = map Some steps \<and>
   map keyOf (items (StepIndicator steps c)) = map Some [0..<length steps] \<and>
   items (StepIndicator [] c) = [] \<and>
   map markerOf (items (StepIndicator [] c)) = []"
proof (intro conjI)
  show "length (map markerOf (items (StepIndicator steps c))) = length steps"
    by (simp add: items_StepIndicator map_indexed_length)
  have "elemOf (markerOf (renderStep c s i)) = Some Div" for s i
    by (simp add: markerOf_def renderStep_def Let_def)
  then show "map (\<lambda>item. elemOf (markerOf item)) (items (StepIndicator steps c))
      = replicate (length steps) (Some Div)"
    by (intro nth_equalityI) (simp_all add: items_StepIndicator map_indexed_upt)
  have "length (childrenOf (markerOf (renderStep c s i))) = 1" for s i
    by (simp add: markerOf_def renderStep_def Let_def)
  then show "map (\<lambda>item. length (childrenOf (markerOf item))) (items (StepIndicator steps c))
      = replicate (length steps) 1"
    by (intro nth_equalityI) (simp_all add: items_StepIndicator map_indexed_upt)
  show "None \<notin> set (map stateOf (items (StepIndicator steps c)))"
    by (auto simp: states_StepIndicator)
  show "list_all valid_item (items (StepIndicator steps c))"
    by (simp add: items_StepIndicator map_indexed_upt list_all_iff valid_renderStep)
  have "labelText (renderStep c s i) = Some s" for s i
    by (simp add: labelText_def labelOf_def renderStep_def Let_def)
  then show "map labelText (items (StepIndicator steps c)) = map Some steps"
    by (intro nth_equalityI) (simp_all add: items_StepIndicator map_indexed_upt)
  show "map keyOf (items (StepIndicator steps c)) = map Some [0..<length steps]"
    by (simp add: items_StepIndicator map_indexed_upt keyOf_renderStep)
  show "items (StepIndicator [] c) = []"
    by (simp add: items_StepIndicator map_indexed_Nil)
  show "map markerOf (items (StepIndicator [] c)) = []"
    by (simp add: items_StepIndicator map_indexed_Nil)
qed

theorem one_marker_per_step_witness:
  "length (map markerOf (items (StepIndicator [''A'', ''B'', ''C''] 1))) = 3 \<and>
   map (\<lambda>item. elemOf (markerOf item)) (items (StepIndicator [''A'', ''B'', ''C''] 1))
     = [Some Div, Some Div, Some Div] \<and>
   map (\<lambda>item. length (childrenOf (markerOf item))) (items (StepIndicator [''A'', ''B'', ''C''] 1)) = [1, 1, 1] \<and>
   map labelText (items (StepIndicator [''A'', ''B'', ''C''] 1)) = [Some ''A'', Some ''B'', Some ''C''] \<and>
   map keyOf (items (StepIndicator [''A'', ''B'', ''C''] 1)) = [Some 0, Some 1, Some 2] \<and>
   items (StepIndicator [] 1) = []"
  using one_marker_per_step [of "[''A'', ''B'', ''C'']" 1] by (simp add: upt_rec numeral_3_eq_3)

text \<open>
  C6. At every index \<open>i\<close>: when \<open>i < currentStep\<close> the marker is Completed, shows the check
  icon and no number; when \<open>i = currentStep\<close> it is Current and when \<open>i > currentStep\<close> it
  is Pending, and in both cases it shows the number \<open>i + 1\<close> and no check icon. Completed
  and Current markers carry the class \<open>border-primary\<close> (and not \<open>border-muted\<close>), Pending
  markers the class \<open>border-muted\<close> (and not \<open>border-primary\<close>).
\<close>

theorem marker_visuals:
  "i < length steps \<Longrightarrow>
   (int i < c \<longrightarrow>
      stateOf (items (StepIndicator steps c) ! i) = Some Completed \<and>
      showsCheck (markerOf (items (StepIndicator steps c) ! i)) \<and>
      numbersIn (markerOf (items (StepIndicator steps c) ! i)) = [] \<and>
      hasClass ''border-primary'' (markerOf (items (StepIndicator steps c) ! i)) \<and>
      \<not> hasClass ''border-muted'' (markerOf (items (StepIndicator steps c) ! i))) \<and>
   (int i = c \<longrightarrow>
      stateOf (items (StepIndicator steps c) ! i) = Some Current \<and>
      \<not> showsCheck (markerOf (items (StepIndicator steps c) ! i)) \<and>
      numbersIn (markerOf (items (StepIndicator steps c) ! i)) = [i + 1] \<and>
      hasClass ''border-primary'' (markerOf (items (StepIndicator steps c) ! i)) \<and>
      \<not> hasClass ''border-muted'' (markerOf (items (StepIndicator steps c) ! i))) \<and>
   (c < int i \<longrightarrow>
      stateOf (items (StepIndicator steps c) ! i) = Some Pending \<and>
      \<not> showsCheck (markerOf (items (StepIndicator steps c) ! i)) \<and>
      numbersIn (markerOf (items (StepIndicator steps c) ! i)) = [i + 1] \<and>
      hasClass ''border-muted'' (markerOf (items (StepIndicator steps c) ! i)) \<and>
      \<not> hasClass ''border-primary'' (markerOf (items (StepIndicator steps c) ! i)))"
proof -
  assume i: "i < length steps"
  let ?item = "renderStep c (steps ! i) i"
  have st: "stateOf ?item = Some (spec_state i c)"
    by (rule stateOf_renderStep)
  have completed: "stateOf ?item = Some Completed \<and>
        showsCheck (markerOf ?item) \<and> numbersIn (markerOf ?item) = [] \<and>
        hasClass ''border-primary'' (markerOf ?item) \<and>
        \<not> hasClass ''border-muted'' (markerOf ?item)" if "int i < c"
    using that by (simp add: st spec_state_def marker_Completed hasClass_def)
  have current: "stateOf ?item = Some Current \<and>
        \<not> showsCheck (markerOf ?item) \<and> numbersIn (markerOf ?item) = [i + 1] \<and>
        hasClass ''border-primary'' (markerOf ?item) \<and>
        \<not> hasClass ''border-muted'' (markerOf ?item)" if "int i = c"
  proof -
    from that have "\<not> int i < c" by simp
    with that show ?thesis
      by (simp add: st spec_state_def marker_Current hasClass_def)
  qed
  have pending: "stateOf ?item = Some Pending \<and>
        \<not> showsCheck (markerOf ?item) \<and> numbersIn (markerOf ?item) = [i + 1] \<and>
        hasClass ''border-muted'' (markerOf ?item) \<and>
        \<not> hasClass ''border-primary'' (markerOf ?item)" if "c < int i"
  proof -
    from that have "\<not> int i < c" "int i \<noteq> c" by simp_all
    with that show ?thesis
      by (simp add: st spec_state_def marker_Pending hasClass_def)
  qed
  from completed current pending show ?thesis
    by (simp only: item_nth [OF i]) blast
qed

theorem marker_visuals_witness:
  "((0::nat) < length [''A'', ''B'', ''C''] \<and> int 0 < 1 \<and>
      stateOf (items (StepIndicator [''A'', ''B'', ''C''] 1) ! 0) = Some Completed \<and>
      showsCheck (markerOf (items (StepIndicator [''A'', ''B'', ''C''] 1) ! 0)) \<and>
      numbersIn (markerOf (items (StepIndicator [''A'', ''B'', ''C''] 1) ! 0)) = [] \<and>
      hasClass ''border-primary'' (markerOf (items (StepIndicator [''A'', ''B'', ''C''] 1) ! 0)) \<and>
      \<not> hasClass ''border-muted'' (markerOf (items (StepIndicator [''A'', ''B'', ''C''] 1) ! 0))) \<and>
   ((1::nat) < length [''A'', ''B'', ''C''] \<and> int 1 = 1 \<and>
      stateOf (items (StepIndicator [''A'', ''B'', ''C''] 1) ! 1) = Some Current \<and>
      \<not> showsCheck (markerOf (items (StepIndicator [''A'', ''B'', ''C''] 1) ! 1)) \<and>
      numbersIn (markerOf (items (StepIndicator [''A'', ''B'', ''C''] 1) ! 1)) = [2] \<and>
      hasClass ''border-primary'' (markerOf (items (StepIndicator [''A'', ''B'', ''C''] 1) ! 1)) \<and>
      \<not> hasClass ''border-muted'' (markerOf (items (StepIndicator [''A'', ''B'', ''C''] 1) ! 1))) \<and>
   ((2::nat) < length [''A'', ''B'', ''C''] \<and> 1 < int 2 \<and>
      stateOf (items (StepIndicator [''A'', ''B'', ''C''] 1) ! 2) = Some Pending \<and>
      \<not> showsCheck (markerOf (items (StepIndicator [''A'', ''B'', ''C''] 1) ! 2)) \<and>
      numbersIn (markerOf (items (StepIndicator [''A'', ''B'', ''C''] 1) ! 2)) = [3] \<and>
      hasClass ''border-muted'' (markerOf (items (StepIndicator [''A'', ''B'', ''C''] 1) ! 2)) \<and>
      \<not> hasClass ''border-primary'' (markerOf (items (StepIndicator [''A'', ''B'', ''C''] 1) ! 2)))"
  using marker_visuals [of 0 "[''A'', ''B'', ''C'']" 1] marker_visuals [of 1 "[''A'', ''B'', ''C'']" 1]
    marker_visuals [of 2 "[''A'', ''B'', ''C'']" 1]
  by simp

text \<open>
  C8. The markers do not depend on the label strings: for two lists of steps of the same
  length and the same \<open>currentStep\<close>, the markers (class string and glyph), and so the
  states, are the same index by index, and the two trees are equal once the label texts
  are blanked.
\<close>

theorem labels_do_not_matter:
  "length steps = length steps' \<Longrightarrow>
   map markerOf (items (StepIndicator steps c)) = map markerOf (items (StepIndicator steps' c)) \<and>
   map stateOf (items (StepIndicator steps c)) = map stateOf (items (StepIndicator steps' c)) \<and>
   eraseText (StepIndicator steps c) = eraseText (StepIndicator steps' c)"
proof -
  assume len: "length steps = length steps'"
  have markers: "map markerOf (items (StepIndicator steps c))
      = map markerOf (items (StepIndicator steps' c))"
    using len
    by (intro nth_equalityI)
      (simp_all add: items_StepIndicator map_indexed_length map_indexed_nth
        marker_independent [of c "steps ! i" _ "steps' ! i" for i])
  have states: "map stateOf (items (StepIndicator steps c))
      = map stateOf (items (StepIndicator steps' c))"
    using len by (simp add: states_StepIndicator)
  have "map eraseText (map_indexed (renderStep c) steps)
      = map eraseText (map_indexed (renderStep c) steps')"
    using len
    by (intro nth_equalityI)
      (simp_all add: map_indexed_length map_indexed_nth
        eraseText_renderStep [of c "steps ! i" _ "steps' ! i" for i])
  then have "eraseText (StepIndicator steps c) = eraseText (StepIndicator steps' c)"
    by (simp add: StepIndicator_def)
  with markers states show ?thesis by simp
qed

theorem labels_do_not_matter_witness:
  "length [''A'', ''B'', ''C''] = length [''uno'', ''dos'', ''tres''] \<and>
   map markerOf (items (StepIndicator [''A'', ''B'', ''C''] 1)) = map markerOf (items (StepIndicator [''uno'', ''dos'', ''tres''] 1)) \<and>
   map stateOf (items (StepIndicator [''A'', ''B'', ''C''] 1)) = map stateOf (items (StepIndicator [''uno'', ''dos'', ''tres''] 1)) \<and>
   eraseText (StepIndicator [''A'', ''B'', ''C''] 1) = eraseText (StepIndicator [''uno'', ''dos'', ''tres''] 1)"
  using labels_do_not_matter [of "[''A'', ''B'', ''C'']" "[''uno'', ''dos'', ''tres'']" 1] by simp

text \<open>
  C9. The baseline is rendered for every input: the root always has two children, the
  baseline element and the ordered list. With no steps the tree is the root with the
  baseline and an empty list, not an empty tree.
\<close>

theorem baseline_always:
  "childrenOf (StepIndicator steps c) =
     [Element Div None ''absolute left-0 top-1/2 h-0.5 w-full -translate-y-1/2 bg-muted'' [],
      Element Ol None ''relative z-10 flex w-full justify-between''
        (items (StepIndicator steps c))] \<and>
   StepIndicator [] c =
     Element Div None ''relative''
       [Element Div None ''absolute left-0 top-1/2 h-0.5 w-full -translate-y-1/2 bg-muted'' [],
        Element Ol None ''relative z-10 flex w-full justify-between'' []]"
  by (simp add: items_def StepIndicator_def map_indexed_Nil)

theorem baseline_always_witness:
  "childrenOf (StepIndicator [] 0) =
     [Element Div None ''absolute left-0 top-1/2 h-0.5 w-full -translate-y-1/2 bg-muted'' [],
      Element Ol None ''relative z-10 flex w-full justify-between'' []] \<and>
   childrenOf (StepIndicator [] 0) \<noteq> []"
  using baseline_always [of "[]" 0] by (simp add: items_def)

text \<open>
  C10. At every index \<open>i\<close> and in every state, the item has the label as its second child,
  after the marker: a \<open>span\<close> holding exactly the string \<open>steps[i]\<close>. Its class string is
  the same for every input and holds \<open>hidden\<close> and \<open>sm:block\<close>: the label is hidden on
  narrow viewports by its class, never left out of the tree.
\<close>

theorem label_always_present:
  "i < length steps \<Longrightarrow>
   childrenOf (items (StepIndicator steps c) ! i) =
     [markerOf (items (StepIndicator steps c) ! i), Element Span None ''mt-2 hidden text-xs sm:block'' [Str (steps ! i)]] \<and>
   labelOf (items (StepIndicator steps c) ! i) = Element Span None ''mt-2 hidden text-xs sm:block'' [Str (steps ! i)] \<and>
   hasClass ''hidden'' (labelOf (items (StepIndicator steps c) ! i)) \<and>
   hasClass ''sm:block'' (labelOf (items (StepIndicator steps c) ! i))"
  by (simp add: item_nth children_renderStep labelOf_def hasClass_def)

theorem label_always_present_witness:
  "((0::nat) < length [''A'', ''B'', ''C''] \<and>
      stateOf (items (StepIndicator [''A'', ''B'', ''C''] 1) ! 0) = Some Completed \<and>
      labelOf (items (StepIndicator [''A'', ''B'', ''C''] 1) ! 0) = Element Span None ''mt-2 hidden text-xs sm:block'' [Str ''A'']) \<and>
   ((1::nat) < length [''A'', ''B'', ''C''] \<and>
      stateOf (items (StepIndicator [''A'', ''B'', ''C''] 1) ! 1) = Some Current \<and>
      labelOf (items (StepIndicator [''A'', ''B'', ''C''] 1) ! 1) = Element Span None ''mt-2 hidden text-xs sm:block'' [Str ''B'']) \<and>
   ((2::nat) < length [''A'', ''B'', ''C''] \<and>
      stateOf (items (StepIndicator [''A'', ''B'', ''C''] 1) ! 2) = Some Pending \<and>
      labelOf (items (StepIndicator [''A'', ''B'', ''C''] 1) ! 2) = Element Span None ''mt-2 hidden text-xs sm:block'' [Str ''C''])"
proof -
  have s0: "stateOf (items (StepIndicator [''A'', ''B'', ''C''] 1) ! 0) = Some Completed"
    by (simp add: item_nth stateOf_renderStep spec_state_def)
  have s1: "stateOf (items (StepIndicator [''A'', ''B'', ''C''] 1) ! 1) = Some Current"
    by (simp add: item_nth stateOf_renderStep spec_state_def)
  have s2: "stateOf (items (StepIndicator [''A'', ''B'', ''C''] 1) ! 2) = Some Pending"
    by (simp add: item_nth stateOf_renderStep spec_state_def)
  show ?thesis
    using label_always_present [of 0 "[''A'', ''B'', ''C'']" 1] label_always_present [of 1 "[''A'', ''B'', ''C'']" 1]
      label_always_present [of 2 "[''A'', ''B'', ''C'']" 1] s0 s1 s2
    by simp
qed

end
